theory Spec2Isabelle
  imports Complex_Main
begin

section \<open>Data model\<close>

text \<open>
  The dashboard exists in two variants: \<^verbatim>\<open>src/App.tsx\<close> (with the roster, the
  de-duplicated head count and the winner lock) and the plain variant of
  \<^verbatim>\<open>src/unnamed/part_001\<close>, whose types are those of \<^verbatim>\<open>src/unnamed/part_000\<close>.
  Both read the same four columns of an attendance row; the two display columns
  \<open>nama\<close> and \<open>penempatan\<close> exist in \<^verbatim>\<open>src/App.tsx\<close> only and no aggregation reads them.
  Field names are constants in HOL, so the fields of \<open>MasterRecord\<close> and \<open>WinnerLock\<close>
  carry a prefix and the count of a \<open>DateStat\<close> is \<open>dcount\<close>.

  Modelling conventions.
  \<^item> A JavaScript string is a \<open>string\<close>; a column that the store may return as \<open>null\<close>
    is a \<open>string option\<close>.
  \<^item> A JavaScript number is an \<open>int\<close> where the code only ever holds integers, and the
    quotient under \<open>Math.round\<close> is an exact rational (\<open>rat\<close>).
  \<^item> A plain object used as a dictionary is an association list in insertion order.
    \<open>Object.entries\<close> lists the keys that are array indices first, in ascending
    numeric order, and the other keys in insertion order (\<open>Object_entries\<close>); the keys
    of the target table are not array indices.
  \<^item> A plain object inherits the properties of \<open>Object.prototype\<close>
    (\<open>Object_prototype_names\<close>). The winner lock models the reading of such a name.
    The dictionaries of the aggregation are modelled at the other keys (\<open>plainKey\<close>):
    at an inherited name the source reads a function where the model finds no entry,
    and \<^verbatim>\<open>src/App.tsx\<close> throws when it adds to the bucket of such a unit.
  \<^item> A \<open>Set\<close> is the list of its members in insertion order, without repetition.
  \<^item> \<open>Array.prototype.sort\<close> is a stable insertion sort driven by the comparator. For
    a comparator that never returns \<open>NaN\<close> and orders by a key, every stable sort gives
    this result; for one that can return \<open>NaN\<close> the language leaves the order to the
    implementation, and the model is one such order.
  \<^item> \<open>new Date(s).getTime()\<close> is a parameter \<open>getTime\<close>, with \<open>None\<close> for \<open>NaN\<close>.
\<close>

record AttendanceRecord =
  no_pekerja :: string
  nama :: string
  penempatan :: string
  tarikh_kehadiran :: "string option"
  wing_negeri :: "string option"
  sesi :: "string option"

record MasterRecord =
  m_no_pekerja :: string
  m_nama :: string
  m_wing_negeri :: "string option"
  m_penempatan :: string

record DateStat =
  date :: string
  dcount :: int

record StateStat =
  state :: string
  count :: int
  target :: int
  percentage :: int

text \<open>\<open>DashboardStats\<close> of \<^verbatim>\<open>part_000\<close>; \<^verbatim>\<open>src/App.tsx\<close> adds two fields to it.\<close>

record DashboardStats =
  totalParticipants :: int
  totalTarget :: int
  overallPercentage :: int
  topDay :: "DateStat option"
  topState :: "StateStat option"
  dateDistribution :: "DateStat list"
  stateDistribution :: "StateStat list"

record DashboardStatsFull = DashboardStats +
  filteredData :: "AttendanceRecord list"
  notRegisteredData :: "MasterRecord list"

record WinnerLock =
  w_state :: string
  w_percentage :: int
  w_timestamp :: string

section \<open>Configuration\<close>

definition PRESET_TARGETS :: "(string \<times> int) list" where
  "PRESET_TARGETS =
    [(''KETUA PENGARAH'', 10),
     (''TKP (PIA)'', 17),
     (''TKP (KP)'', 19),
     (''TKP (SMO)'', 13),
     (''FAMA KELANTAN'', 10),
     (''FAMA JOHOR'', 15),
     (''FAMA SELANGOR'', 14),
     (''FAMA SABAH'', 20),
     (''FAMA SARAWAK'', 13),
     (''FAMA NEGERI SEMBILAN'', 11),
     (''FAMA TERENGGANU'', 12),
     (''FAMA PAHANG'', 17),
     (''FAMA KEDAH'', 13),
     (''FAMA PERAK'', 15),
     (''FAMA PERLIS'', 6),
     (''FAMA PULAU PINANG'', 8),
     (''FAMA MELAKA'', 8)]"

text \<open>The table of \<^verbatim>\<open>part_001\<close> differs in one entry (FAMA NEGERI SEMBILAN).\<close>

definition PRESET_TARGETS_p1 :: "(string \<times> int) list" where
  "PRESET_TARGETS_p1 =
    [(''KETUA PENGARAH'', 10),
     (''TKP (PIA)'', 17),
     (''TKP (KP)'', 19),
     (''TKP (SMO)'', 13),
     (''FAMA KELANTAN'', 10),
     (''FAMA JOHOR'', 15),
     (''FAMA SELANGOR'', 14),
     (''FAMA SABAH'', 20),
     (''FAMA SARAWAK'', 13),
     (''FAMA NEGERI SEMBILAN'', 12),
     (''FAMA TERENGGANU'', 12),
     (''FAMA PAHANG'', 17),
     (''FAMA KEDAH'', 13),
     (''FAMA PERAK'', 15),
     (''FAMA PERLIS'', 6),
     (''FAMA PULAU PINANG'', 8),
     (''FAMA MELAKA'', 8)]"

section \<open>JavaScript primitives used by the aggregation\<close>

text \<open>\<open>String.prototype.trim\<close> on 8-bit code units: the white space and line
  terminators below U+0100 are TAB, LF, VT, FF, CR, SPACE and NBSP.\<close>

definition is_space :: "char \<Rightarrow> bool" where
  "is_space c = (c \<in> set [CHR 0x09, CHR 0x0A, CHR 0x0B, CHR 0x0C, CHR 0x0D, CHR 0x20, CHR 0xA0])"

definition trim :: "string \<Rightarrow> string" where
  "trim s = rev (dropWhile is_space (rev (dropWhile is_space s)))"

text \<open>\<open>Math.round\<close>: the nearest integer, a half rounding towards plus infinity.\<close>

definition Math_round :: "rat \<Rightarrow> int" where
  "Math_round x = \<lfloor>x + 1 / 2\<rfloor>"

text \<open>\<open>Set.prototype.add\<close>, \<open>new Set(array)\<close>, \<open>Set.prototype.has\<close> and \<open>size\<close>.\<close>

definition Set_add :: "'a \<Rightarrow> 'a list \<Rightarrow> 'a list" where
  "Set_add x s = (if x \<in> set s then s else s @ [x])"

definition new_Set :: "'a list \<Rightarrow> 'a list" where
  "new_Set xs = foldl (\<lambda>s x. Set_add x s) [] xs"

definition Set_has :: "'a list \<Rightarrow> 'a \<Rightarrow> bool" where
  "Set_has s x = (x \<in> set s)"

definition Set_size :: "'a list \<Rightarrow> int" where
  "Set_size s = int (length s)"

text \<open>The property names that a plain object inherits from \<open>Object.prototype\<close>.
  Reading one of them from a plain object that has no entry of its own under that
  name yields a function (the prototype itself for \<open>__proto__\<close>), which is truthy.\<close>

definition Object_prototype_names :: "string list" where
  "Object_prototype_names =
     [''constructor'', ''__defineGetter__'', ''__defineSetter__'', ''hasOwnProperty'',
      ''__lookupGetter__'', ''__lookupSetter__'', ''isPrototypeOf'', ''propertyIsEnumerable'',
      ''toString'', ''valueOf'', ''__proto__'', ''toLocaleString'']"

definition plainKey :: "string \<Rightarrow> bool" where
  "plainKey k = (k \<notin> set Object_prototype_names)"

text \<open>\<open>if (obj[k])\<close> on a plain object whose own values are objects.\<close>

definition truthyAt :: "(string \<rightharpoonup> 'a) \<Rightarrow> string \<Rightarrow> bool" where
  "truthyAt obj k = (case obj k of Some _ \<Rightarrow> True | None \<Rightarrow> k \<in> set Object_prototype_names)"

text \<open>An array index is a canonical decimal numeral below \<open>2^32 - 1\<close>.\<close>

definition indexValue :: "string \<Rightarrow> nat" where
  "indexValue k = foldl (\<lambda>n c. 10 * n + (of_char c - 48)) 0 k"

definition isArrayIndex :: "string \<Rightarrow> bool" where
  "isArrayIndex k =
     (k \<noteq> [] \<and> list_all (\<lambda>c. c \<in> set ''0123456789'') k \<and>
      (length k = 1 \<or> hd k \<noteq> CHR ''0'') \<and> indexValue k < 4294967295)"

text \<open>\<open>Object.entries(obj)\<close>: array indices in ascending order, then the other keys
  in the order of their insertion.\<close>

definition Object_entries :: "(string \<times> 'v) list \<Rightarrow> (string \<times> 'v) list" where
  "Object_entries obj =
     sort_key (\<lambda>(k, v). indexValue k) (filter (\<lambda>(k, v). isArrayIndex k) obj) @
     filter (\<lambda>(k, v). \<not> isArrayIndex k) obj"

text \<open>\<open>Array.prototype.sort(cmp)\<close>. A comparator result \<open>None\<close> stands for \<open>NaN\<close>, which
  the sort reads as \<open>+0\<close>. An element is placed before the first later element it
  does not exceed, so elements that compare equal keep their order.\<close>

definition SortCompare :: "('a \<Rightarrow> 'a \<Rightarrow> int option) \<Rightarrow> 'a \<Rightarrow> 'a \<Rightarrow> int" where
  "SortCompare cmp x y = (case cmp x y of None \<Rightarrow> 0 | Some v \<Rightarrow> v)"

fun sort_insert :: "('a \<Rightarrow> 'a \<Rightarrow> int option) \<Rightarrow> 'a \<Rightarrow> 'a list \<Rightarrow> 'a list" where
  "sort_insert cmp x [] = [x]"
| "sort_insert cmp x (y # ys) =
     (if SortCompare cmp x y \<le> 0 then x # y # ys else y # sort_insert cmp x ys)"

definition js_sort :: "('a \<Rightarrow> 'a \<Rightarrow> int option) \<Rightarrow> 'a list \<Rightarrow> 'a list" where
  "js_sort cmp xs = foldr (sort_insert cmp) xs []"

section \<open>The aggregation\<close>

text \<open>\<open>rawData.filter(record => matchDate && matchSession && matchState)\<close>.\<close>

definition matches :: "string \<Rightarrow> string \<Rightarrow> string \<Rightarrow> AttendanceRecord \<Rightarrow> bool" where
  "matches selectedDate selectedSession selectedState record =
     (let matchDate = (selectedDate = ''all'' \<or> tarikh_kehadiran record = Some selectedDate);
          matchSession = (selectedSession = ''all'' \<or> sesi record = Some selectedSession);
          matchState = (selectedState = ''all'' \<or> wing_negeri record = Some selectedState)
      in matchDate \<and> matchSession \<and> matchState)"

definition filtered :: "AttendanceRecord list \<Rightarrow> string \<Rightarrow> string \<Rightarrow> string \<Rightarrow> AttendanceRecord list" where
  "filtered rawData selectedDate selectedSession selectedState =
     filter (matches selectedDate selectedSession selectedState) rawData"

text \<open>\<open>x ? x.trim() : dflt\<close>: \<open>null\<close> and the empty string are falsy.\<close>

definition trim_or :: "string \<Rightarrow> string option \<Rightarrow> string" where
  "trim_or dflt x = (case x of None \<Rightarrow> dflt | Some s \<Rightarrow> if s = [] then dflt else trim s)"

definition dateKey :: "AttendanceRecord \<Rightarrow> string" where
  "dateKey record = trim_or ''N/A'' (tarikh_kehadiran record)"

definition stateKey :: "AttendanceRecord \<Rightarrow> string" where
  "stateKey record = trim_or ''Lain-lain'' (wing_negeri record)"

text \<open>\<open>m[k] = (m[k] || 0) + 1\<close> on a dictionary of counters.\<close>

fun bump :: "string \<Rightarrow> (string \<times> int) list \<Rightarrow> (string \<times> int) list" where
  "bump k [] = [(k, 0 + 1)]"
| "bump k ((k', n) # m) =
     (if k = k' then (k', (if n = 0 then 0 else n) + 1) # m else (k', n) # bump k m)"

text \<open>\<open>if (!m[k]) m[k] = new Set(); m[k].add(p)\<close> on a dictionary of sets.\<close>

fun add_member :: "string \<Rightarrow> string \<Rightarrow> (string \<times> string list) list \<Rightarrow> (string \<times> string list) list" where
  "add_member k p [] = [(k, Set_add p [])]"
| "add_member k p ((k', s) # m) =
     (if k = k' then (k', Set_add p s) # m else (k', s) # add_member k p m)"

text \<open>The \<open>forEach\<close> over the filtered records of \<^verbatim>\<open>src/App.tsx\<close>: it fills \<open>dateMap\<close>
  and \<open>stateUniqueMap\<close>.\<close>

definition aggregate :: "AttendanceRecord list \<Rightarrow> (string \<times> int) list \<times> (string \<times> string list) list" where
  "aggregate recs =
     foldl (\<lambda>(dateMap, stateUniqueMap) record.
              (bump (dateKey record) dateMap,
               add_member (stateKey record) (no_pekerja record) stateUniqueMap))
           ([], []) recs"

text \<open>The \<open>forEach\<close> of \<^verbatim>\<open>part_001\<close>: it fills \<open>dateMap\<close> and the counter table
  \<open>stateMap\<close>.\<close>

definition aggregate_p1 :: "AttendanceRecord list \<Rightarrow> (string \<times> int) list \<times> (string \<times> int) list" where
  "aggregate_p1 recs =
     foldl (\<lambda>(dateMap, stateMap) record.
              (bump (dateKey record) dateMap, bump (stateKey record) stateMap))
           ([], []) recs"

definition date_cmp :: "(string \<Rightarrow> int option) \<Rightarrow> DateStat \<Rightarrow> DateStat \<Rightarrow> int option" where
  "date_cmp getTime a b =
     (case (getTime (date a), getTime (date b)) of
        (Some ta, Some tb) \<Rightarrow> Some (ta - tb)
      | _ \<Rightarrow> None)"

definition state_cmp :: "StateStat \<Rightarrow> StateStat \<Rightarrow> int option" where
  "state_cmp a b = Some (percentage b - percentage a)"

definition mkDateDistribution :: "(string \<Rightarrow> int option) \<Rightarrow> (string \<times> int) list \<Rightarrow> DateStat list" where
  "mkDateDistribution getTime dateMap =
     js_sort (date_cmp getTime)
       (map (\<lambda>(d, c). \<lparr>date = d, dcount = c\<rparr>) (Object_entries dateMap))"

text \<open>\<open>PRESET_TARGETS[key] || 0\<close>.\<close>

definition target_of :: "(string \<times> int) list \<Rightarrow> string \<Rightarrow> int" where
  "target_of targets key = (case map_of targets key of None \<Rightarrow> 0 | Some t \<Rightarrow> if t = 0 then 0 else t)"

definition pct :: "int \<Rightarrow> int \<Rightarrow> int" where
  "pct c t = (if t > 0 then Math_round ((of_int c / of_int t) * 100) else 0)"

definition mkStateStat :: "(string \<times> int) list \<Rightarrow> (string \<Rightarrow> int) \<Rightarrow> string \<Rightarrow> StateStat" where
  "mkStateStat targets countOf key =
     (let c = countOf key; t = target_of targets key
      in \<lparr>state = key, count = c, target = t, percentage = pct c t\<rparr>)"

definition stateKeys :: "(string \<times> int) list \<Rightarrow> string \<Rightarrow> string list" where
  "stateKeys targets selectedState =
     (if selectedState \<noteq> ''all'' then [selectedState] else map fst targets)"

text \<open>\<open>stateUniqueMap[key] ? stateUniqueMap[key].size : 0\<close> and \<open>stateMap[key] || 0\<close>.\<close>

definition uniqueCount :: "(string \<times> string list) list \<Rightarrow> string \<Rightarrow> int" where
  "uniqueCount stateUniqueMap key =
     (case map_of stateUniqueMap key of None \<Rightarrow> 0 | Some s \<Rightarrow> Set_size s)"

definition plainCount :: "(string \<times> int) list \<Rightarrow> string \<Rightarrow> int" where
  "plainCount stateMap key =
     (case map_of stateMap key of None \<Rightarrow> 0 | Some n \<Rightarrow> if n = 0 then 0 else n)"

text \<open>\<open>stateKeys.map(key => ...)\<close>, the distribution in the order of the unit list,
  and the same list after \<open>sort((a, b) => b.percentage - a.percentage)\<close>.\<close>

definition stateEntries :: "(string \<times> int) list \<Rightarrow> (string \<Rightarrow> int) \<Rightarrow> string \<Rightarrow> StateStat list" where
  "stateEntries targets countOf selectedState =
     map (mkStateStat targets countOf) (stateKeys targets selectedState)"

definition mkStateDistribution :: "(string \<times> int) list \<Rightarrow> (string \<Rightarrow> int) \<Rightarrow> string \<Rightarrow> StateStat list" where
  "mkStateDistribution targets countOf selectedState =
     js_sort state_cmp (stateEntries targets countOf selectedState)"

text \<open>The two \<open>forEach\<close> scans that keep the first entry exceeding the running
  maximum, started at \<open>-1\<close>.\<close>

definition scanTop :: "('a \<Rightarrow> int) \<Rightarrow> 'a list \<Rightarrow> 'a option" where
  "scanTop f xs =
     snd (foldl (\<lambda>(mx, top) x. if f x > mx then (f x, Some x) else (mx, top)) (- 1, None) xs)"

definition mkTotalTarget :: "(string \<times> int) list \<Rightarrow> string \<Rightarrow> int" where
  "mkTotalTarget targets selectedState =
     (if selectedState = ''all'' then foldl (\<lambda>a b. a + b) 0 (map snd targets)
      else target_of targets selectedState)"

text \<open>\<open>stats\<close> of \<^verbatim>\<open>src/App.tsx\<close>.\<close>

definition stats ::
  "(string \<Rightarrow> int option) \<Rightarrow> AttendanceRecord list \<Rightarrow> MasterRecord list \<Rightarrow>
   string \<Rightarrow> string \<Rightarrow> string \<Rightarrow> DashboardStatsFull" where
  "stats getTime rawData masterData selectedDate selectedSession selectedState =
     (let flt = filtered rawData selectedDate selectedSession selectedState;
          uniqueParticipants = new_Set (map no_pekerja flt);
          totalHeadcount = Set_size uniqueParticipants;
          notRegistered0 = filter (\<lambda>staff. \<not> Set_has uniqueParticipants (m_no_pekerja staff)) masterData;
          notRegistered =
            (if selectedState \<noteq> ''all''
             then filter (\<lambda>staff. m_wing_negeri staff = Some selectedState) notRegistered0
             else notRegistered0);
          (dateMap, stateUniqueMap) = aggregate flt;
          dateDist = mkDateDistribution getTime dateMap;
          stateDist = mkStateDistribution PRESET_TARGETS (uniqueCount stateUniqueMap) selectedState;
          totTarget = mkTotalTarget PRESET_TARGETS selectedState
      in \<lparr>totalParticipants = totalHeadcount,
          totalTarget = totTarget,
          overallPercentage = pct totalHeadcount totTarget,
          topDay = scanTop dcount dateDist,
          topState = scanTop percentage stateDist,
          dateDistribution = dateDist,
          stateDistribution = stateDist,
          filteredData = flt,
          notRegisteredData = notRegistered\<rparr>)"

text \<open>\<open>stats\<close> of \<^verbatim>\<open>part_001\<close>: every matching record counts.\<close>

definition stats_p1 ::
  "(string \<Rightarrow> int option) \<Rightarrow> AttendanceRecord list \<Rightarrow> string \<Rightarrow> string \<Rightarrow> string \<Rightarrow> DashboardStats" where
  "stats_p1 getTime rawData selectedDate selectedSession selectedState =
     (let flt = filtered rawData selectedDate selectedSession selectedState;
          total = int (length flt);
          (dateMap, stateMap) = aggregate_p1 flt;
          dateDist = mkDateDistribution getTime dateMap;
          stateDist = mkStateDistribution PRESET_TARGETS_p1 (plainCount stateMap) selectedState;
          totTarget = mkTotalTarget PRESET_TARGETS_p1 selectedState
      in \<lparr>totalParticipants = total,
          totalTarget = totTarget,
          overallPercentage = pct total totTarget,
          topDay = scanTop dcount dateDist,
          topState = scanTop percentage stateDist,
          dateDistribution = dateDist,
          stateDistribution = stateDist\<rparr>)"

section \<open>The winner lock\<close>

text \<open>The effect of \<^verbatim>\<open>src/App.tsx\<close> that locks the first unit to reach its target, per
  session key. Its state is the \<open>sessionWinners\<close> dictionary (its own entries) and the
  copy of it in local storage (\<open>None\<close> while nothing has been stored); \<open>now\<close> is
  \<open>new Date().toISOString()\<close>. The guard \<open>if (sessionWinners[currentSessionKey]) return\<close>
  reads a plain object, so it also fires for a session key that is an inherited
  property name.\<close>

record LockState =
  sessionWinners :: "string \<rightharpoonup> WinnerLock"
  localStorage :: "(string \<rightharpoonup> WinnerLock) option"

definition lockWinner :: "string \<Rightarrow> StateStat list \<Rightarrow> string \<Rightarrow> LockState \<Rightarrow> LockState" where
  "lockWinner selectedSession stateDist now st =
     (let currentSessionKey = selectedSession
      in if truthyAt (sessionWinners st) currentSessionKey then st
         else
            (case find (\<lambda>s. percentage s \<ge> 100) stateDist of
               None \<Rightarrow> st
             | Some champion \<Rightarrow>
                (let winnerData = \<lparr>w_state = state champion,
                                   w_percentage = percentage champion,
                                   w_timestamp = now\<rparr>;
                     updatedWinners = (sessionWinners st)(currentSessionKey \<mapsto> winnerData)
                 in \<lparr>sessionWinners = updatedWinners, localStorage = Some updatedWinners\<rparr>)))"

text \<open>Any number of later runs of the effect, each with its own session selector,
  distribution and clock reading.\<close>

fun lockWinnerRuns :: "(string \<times> StateStat list \<times> string) list \<Rightarrow> LockState \<Rightarrow> LockState" where
  "lockWinnerRuns [] st = st"
| "lockWinnerRuns ((sel, sd, now) # runs) st = lockWinnerRuns runs (lockWinner sel sd now st)"

section \<open>Data refresh\<close>

text \<open>What one call of \<open>fetchAttendanceData\<close> meets: no client, a rejected request
  (the awaited promise throws), or a response \<open>{data, error}\<close>. An error value is
  represented by its \<open>message\<close> property.\<close>

record JsError =
  message :: "string option"

datatype FetchOutcome =
    ConfigMissing
  | Rejected JsError
  | Response "AttendanceRecord list option" "JsError option"

record AppState =
  loading :: bool
  error :: "string option"
  lastUpdated :: int
  rawData :: "AttendanceRecord list"

text \<open>\<open>err.message || dflt\<close>.\<close>

definition errMessage :: "string \<Rightarrow> JsError \<Rightarrow> string" where
  "errMessage dflt err = (case message err of None \<Rightarrow> dflt | Some m \<Rightarrow> if m = [] then dflt else m)"

definition fetchWith :: "string \<Rightarrow> FetchOutcome \<Rightarrow> int \<Rightarrow> AppState \<Rightarrow> AppState" where
  "fetchWith dflt outcome now st =
     (let st1 = st\<lparr>loading := True, error := None\<rparr>;
          caught = (\<lambda>err. st1\<lparr>error := Some (errMessage dflt err)\<rparr>);
          st2 = (case outcome of
                   ConfigMissing \<Rightarrow> caught \<lparr>message = Some ''Supabase configuration missing.''\<rparr>
                 | Rejected err \<Rightarrow> caught err
                 | Response data supabaseError \<Rightarrow>
                     (case supabaseError of
                        Some err \<Rightarrow> caught err
                      | None \<Rightarrow>
                         (case data of
                            Some d \<Rightarrow> st1\<lparr>rawData := d, lastUpdated := now\<rparr>
                          | None \<Rightarrow> st1)))
      in st2\<lparr>loading := False\<rparr>)"

text \<open>\<open>fetchAttendanceData\<close> of \<^verbatim>\<open>src/App.tsx\<close> and of \<^verbatim>\<open>part_001\<close>: they differ in
  the fallback message.\<close>

definition fetchAttendanceData :: "FetchOutcome \<Rightarrow> int \<Rightarrow> AppState \<Rightarrow> AppState" where
  "fetchAttendanceData = fetchWith ''Gagal mendapatkan data.''"

definition fetchAttendanceData_p1 :: "FetchOutcome \<Rightarrow> int \<Rightarrow> AppState \<Rightarrow> AppState" where
  "fetchAttendanceData_p1 = fetchWith ''Gagal mendapatkan data dari pangkalan data.''"

text \<open>A refresh succeeds when the response carries rows and no error.\<close>

fun succeeded :: "FetchOutcome \<Rightarrow> AttendanceRecord list option" where
  "succeeded (Response (Some d) None) = Some d"
| "succeeded _ = None"

section \<open>Notions of the specification\<close>

text \<open>The first element of a list whose value is maximal in the list.\<close>

definition firstMax :: "('a \<Rightarrow> int) \<Rightarrow> 'a list \<Rightarrow> 'a option" where
  "firstMax f xs = find (\<lambda>x. \<forall>y \<in> set xs. f y \<le> f x) xs"

text \<open>The roster minus the employee identifiers of a list of attendance records.\<close>

definition rosterComplement :: "MasterRecord list \<Rightarrow> AttendanceRecord list \<Rightarrow> MasterRecord list" where
  "rosterComplement roster recs =
     filter (\<lambda>staff. m_no_pekerja staff \<notin> no_pekerja ` set recs) roster"


section \<open>Sample data\<close>

definition attendee :: "string \<Rightarrow> string option \<Rightarrow> string option \<Rightarrow> string option \<Rightarrow> AttendanceRecord" where
  "attendee p d u s =
     \<lparr>no_pekerja = p, nama = [], penempatan = [],
      tarikh_kehadiran = d, wing_negeri = u, sesi = s\<rparr>"

definition rosterEntry :: "string \<Rightarrow> string option \<Rightarrow> MasterRecord" where
  "rosterEntry p u = \<lparr>m_no_pekerja = p, m_nama = [], m_wing_negeri = u, m_penempatan = []\<rparr>"

text \<open>Epoch milliseconds of three dates; every other string is an invalid date.\<close>

definition sampleTime :: "string \<Rightarrow> int option" where
  "sampleTime = map_of
     [(''2026-01-20'', 1768867200000),
      (''2026-01-21'', 1768953600000),
      (''2026-01-22'', 1769040000000)]"

definition stat :: "string \<Rightarrow> int \<Rightarrow> int \<Rightarrow> int \<Rightarrow> StateStat" where
  "stat u c t p = \<lparr>state = u, count = c, target = t, percentage = p\<rparr>"

definition lockedSesi1 :: LockState where
  "lockedSesi1 =
     \<lparr>sessionWinners =
        [''Sesi 1'' \<mapsto> \<lparr>w_state = ''FAMA PERLIS'', w_percentage = 117,
                        w_timestamp = ''2026-01-20T02:00:00.000Z''\<rparr>],
      localStorage = None\<rparr>"

definition loaded :: AppState where
  "loaded =
     \<lparr>loading = False, error = None, lastUpdated = 1768867200000,
      rawData = [attendee ''F001'' (Some ''2026-01-20'') (Some ''FAMA PERLIS'') (Some ''Sesi 1'')]\<rparr>"

text \<open>Attendance rows with a repeated employee, an untrimmed unit, a missing date and a
  missing unit.\<close>

definition sampleRaw :: "AttendanceRecord list" where
  "sampleRaw =
     [attendee ''F001'' (Some ''2026-01-21'') (Some ''FAMA PERLIS'') (Some ''Sesi 1''),
      attendee ''F001'' (Some ''2026-01-21'') (Some ''FAMA PERLIS'') (Some ''Sesi 2''),
      attendee ''F002'' (Some ''2026-01-20'') (Some '' FAMA PERLIS '') (Some ''Sesi 1''),
      attendee ''F003'' None (Some ''FAMA MELAKA'') (Some ''Sesi 1''),
      attendee ''F004'' (Some ''2026-01-20'') None None]"

text \<open>Rows in which a row whose date is the empty string lies between two dates
  that arrive in descending order.\<close>

definition gapRaw :: "AttendanceRecord list" where
  "gapRaw =
     [attendee ''F001'' (Some ''2026-01-21'') (Some ''FAMA PERLIS'') (Some ''Sesi 1''),
      attendee ''F002'' (Some ''2026-01-21'') (Some ''FAMA PERLIS'') (Some ''Sesi 1''),
      attendee ''F003'' (Some []) (Some ''FAMA PERLIS'') (Some ''Sesi 1''),
      attendee ''F004'' (Some ''2026-01-20'') (Some ''FAMA PERLIS'') (Some ''Sesi 1''),
      attendee ''F005'' (Some ''2026-01-20'') (Some ''FAMA PERLIS'') (Some ''Sesi 1'')]"

text \<open>The same rows and a sixth attendee of FAMA PERLIS, whose target is 6.\<close>

definition perlisRaw :: "AttendanceRecord list" where
  "perlisRaw = gapRaw @ [attendee ''F006'' (Some ''2026-01-22'') (Some ''FAMA PERLIS'') (Some ''Sesi 2'')]"

text \<open>Two units with the same target and one attendee each, the later unit of the
  configuration arriving first.\<close>

definition tieRaw :: "AttendanceRecord list" where
  "tieRaw =
     [attendee ''F010'' (Some ''2026-01-20'') (Some ''FAMA KELANTAN'') (Some ''Sesi 1''),
      attendee ''F011'' (Some ''2026-01-20'') (Some ''KETUA PENGARAH'') (Some ''Sesi 1'')]"

text \<open>Six attendees of FAMA PERLIS in a session whose label is an inherited property
  name, and the winner dictionary before any lock.\<close>

definition ctorRaw :: "AttendanceRecord list" where
  "ctorRaw =
     map (\<lambda>p. attendee p (Some ''2026-01-20'') (Some ''FAMA PERLIS'') (Some ''constructor''))
       [''F001'', ''F002'', ''F003'', ''F004'', ''F005'', ''F006'']"

definition noWinners :: LockState where
  "noWinners = \<lparr>sessionWinners = Map.empty, localStorage = None\<rparr>"

definition sampleRoster :: "MasterRecord list" where
  "sampleRoster =
     [rosterEntry ''F001'' (Some ''FAMA PERLIS''),
      rosterEntry ''F009'' (Some ''FAMA JOHOR'')]"

section \<open>Facts about the primitives\<close>

lemma find_Some_set: "find P xs = Some x \<Longrightarrow> x \<in> set xs \<and> P x"
  by (induction xs) (auto split: if_splits)

lemma find_filter: "find P xs = (case filter P xs of [] \<Rightarrow> None | x # _ \<Rightarrow> Some x)"
  by (induction xs) auto

lemma sorted_wrt_all: "(\<And>x y. x \<in> set xs \<Longrightarrow> y \<in> set xs \<Longrightarrow> R x y) \<Longrightarrow> sorted_wrt R xs"
  by (induction xs) auto

lemma filter_key_empty: "k \<notin> key ` set xs \<Longrightarrow> filter (\<lambda>r. key r = k) xs = []"
  by (induction xs) auto

lemma filter_key_nonempty: "k \<in> key ` set xs \<Longrightarrow> 1 \<le> length (filter (\<lambda>r. key r = k) xs)"
  by (induction xs) auto

subsection \<open>Sets\<close>

lemma set_Set_add: "set (Set_add x s) = insert x (set s)"
  by (auto simp: Set_add_def)


lemma new_Set_snoc: "new_Set (xs @ [x]) = Set_add x (new_Set xs)"
  by (simp add: new_Set_def)

lemma set_new_Set: "set (new_Set xs) = set xs"
  by (induction xs rule: rev_induct) (simp_all add: new_Set_snoc set_Set_add, simp add: new_Set_def)



subsection \<open>Sorting\<close>

text \<open>With a comparator that subtracts a numeric key, the sort is the stable
  insertion sort by that key.\<close>

lemma set_sort_insert: "set (sort_insert cmp x ys) = insert x (set ys)"
  by (induction ys) auto

lemma js_sort_Cons: "js_sort cmp (x # xs) = sort_insert cmp x (js_sort cmp xs)"
  by (simp add: js_sort_def)

lemma set_js_sort: "set (js_sort cmp xs) = set xs"
  by (induction xs) (simp_all add: js_sort_def set_sort_insert)

lemma length_sort_insert: "length (sort_insert cmp x ys) = Suc (length ys)"
  by (induction ys) auto

lemma length_js_sort: "length (js_sort cmp xs) = length xs"
  by (induction xs) (simp_all add: js_sort_def length_sort_insert)

lemma sort_insert_key:
  "\<forall>y \<in> set ys. cmp x y = Some (k x - k y) \<Longrightarrow> sort_insert cmp x ys = insort_key k x ys"
  by (induction ys) (auto simp: SortCompare_def)

lemma js_sort_key:
  "\<forall>x \<in> set xs. \<forall>y \<in> set xs. cmp x y = Some (k x - k y) \<Longrightarrow> js_sort cmp xs = sort_key k xs"
proof (induction xs)
  case Nil
  then show ?case by (simp add: js_sort_def)
next
  case (Cons x xs)
  then have "js_sort cmp xs = sort_key k xs" by simp
  moreover have "sort_insert cmp x (sort_key k xs) = insort_key k x (sort_key k xs)"
    using Cons.prems by (intro sort_insert_key) simp
  ultimately show ?case by (simp add: js_sort_Cons)
qed

lemma js_sort_state_cmp: "js_sort state_cmp xs = sort_key (\<lambda>s. - percentage s) xs"
  by (rule js_sort_key) (simp add: state_cmp_def)

lemma js_sort_date_cmp:
  assumes "\<forall>e \<in> set xs. g (date e) \<noteq> None"
  shows "js_sort (date_cmp g) xs = sort_key (\<lambda>e. the (g (date e))) xs"
proof (rule js_sort_key, intro ballI)
  fix x y assume "x \<in> set xs" "y \<in> set xs"
  with assms have "g (date x) \<noteq> None" "g (date y) \<noteq> None" by blast+
  then obtain tx ty where "g (date x) = Some tx" "g (date y) = Some ty" by blast
  then show "date_cmp g x y = Some (the (g (date x)) - the (g (date y)))"
    by (simp add: date_cmp_def)
qed

lemma find_least_sort_key:
  fixes k :: "'a \<Rightarrow> int"
  shows "find (\<lambda>x. \<forall>y \<in> set xs. k x \<le> k y) (sort_key k xs) = find (\<lambda>x. \<forall>y \<in> set xs. k x \<le> k y) xs"
proof -
  let ?P = "\<lambda>x. \<forall>y \<in> set xs. k x \<le> k y"
  have "sorted (map k (filter ?P xs))"
    unfolding sorted_map by (rule sorted_wrt_all) auto
  then have "sort_key k (filter ?P xs) = filter ?P xs"
    by (rule sort_key_id_if_sorted)
  then have "filter ?P (sort_key k xs) = filter ?P xs"
    by (simp add: filter_sort)
  then show ?thesis
    by (simp add: find_filter)
qed

lemma sorted_wrt_find_ge:
  fixes f :: "'a \<Rightarrow> int"
  assumes "sorted_wrt (\<lambda>a b. f b \<le> f a) xs" and "find (\<lambda>x. n \<le> f x) xs = Some c"
  shows "c = hd xs \<and> (\<forall>e \<in> set xs. f e \<le> f c)"
proof (cases xs)
  case Nil
  with assms(2) show ?thesis by simp
next
  case (Cons a rest)
  with assms(1) have le: "\<forall>e \<in> set rest. f e \<le> f a" by simp
  have "n \<le> f a"
  proof (rule ccontr)
    assume na: "\<not> n \<le> f a"
    with Cons assms(2) have "find (\<lambda>x. n \<le> f x) rest = Some c" by simp
    then have "c \<in> set rest" "n \<le> f c" using find_Some_set by fastforce+
    with le na show False by force
  qed
  with Cons assms(2) have "c = a" by simp
  with Cons le show ?thesis by simp
qed

subsection \<open>The scan for the top entry\<close>

lemma scan_fold:
  "snd (foldl (\<lambda>(mx, top) x. if f x > mx then (f x, Some x) else (mx, top)) (m::int, t) xs) =
     (case find (\<lambda>x. f x > m \<and> (\<forall>y \<in> set xs. f y \<le> f x)) xs of None \<Rightarrow> t | Some x \<Rightarrow> Some x)"
proof (induction xs arbitrary: m t)
  case Nil
  then show ?case by simp
next
  case (Cons a xs)
  show ?case
  proof (cases "f a > m")
    case False
    have "find (\<lambda>x. f x > m \<and> (\<forall>y \<in> set (a # xs). f y \<le> f x)) xs =
          find (\<lambda>x. f x > m \<and> (\<forall>y \<in> set xs. f y \<le> f x)) xs"
      using False by (intro find_cong) auto
    with False show ?thesis by (simp add: Cons.IH)
  next
    case True
    show ?thesis
    proof (cases "\<forall>y \<in> set xs. f y \<le> f a")
      case all: True
      have "find (\<lambda>x. f x > f a \<and> (\<forall>y \<in> set xs. f y \<le> f x)) xs = None"
        using all by (auto simp: find_None_iff)
      with True all show ?thesis by (simp add: Cons.IH)
    next
      case notall: False
      from notall obtain b where b: "b \<in> set xs" "f a < f b" by force
      have eqv: "(f x > m \<and> (\<forall>y \<in> set (a # xs). f y \<le> f x)) =
                 (f x > f a \<and> (\<forall>y \<in> set xs. f y \<le> f x))" for x
      proof (cases "\<forall>y \<in> set xs. f y \<le> f x")
        case ub: True
        with b have "f a < f x" by force
        with True ub show ?thesis by simp
      next
        case False
        then have "\<not> (\<forall>y \<in> set (a # xs). f y \<le> f x)" by simp
        with False show ?thesis by (simp only: simp_thms)
      qed
      have "find (\<lambda>x. f x > m \<and> (\<forall>y \<in> set (a # xs). f y \<le> f x)) xs =
            find (\<lambda>x. f x > f a \<and> (\<forall>y \<in> set xs. f y \<le> f x)) xs"
        by (simp only: eqv)
      moreover have "find (\<lambda>x. f x > f a \<and> (\<forall>y \<in> set xs. f y \<le> f x)) xs \<noteq> None"
      proof -
        have "finite (f ` set xs)" "f ` set xs \<noteq> {}" using b by auto
        then have "Max (f ` set xs) \<in> f ` set xs" by (rule Max_in)
        then obtain z where z: "z \<in> set xs" "f z = Max (f ` set xs)" by auto
        have ub: "\<forall>y \<in> set xs. f y \<le> f z" using z(2) by simp
        with b have "f a < f z" by force
        with z(1) ub have "\<exists>x. x \<in> set xs \<and> (f a < f x \<and> (\<forall>y \<in> set xs. f y \<le> f x))"
          by blast
        then show ?thesis by (simp add: find_None_iff)
      qed
      ultimately show ?thesis using True notall by (auto simp: Cons.IH split: option.splits)
    qed
  qed
qed

lemma scanTop_first_max:
  assumes "\<forall>x \<in> set xs. f x > - 1"
  shows "scanTop f xs = find (\<lambda>x. \<forall>y \<in> set xs. f y \<le> f x) xs"
proof -
  have "find (\<lambda>x. f x > - 1 \<and> (\<forall>y \<in> set xs. f y \<le> f x)) xs = find (\<lambda>x. \<forall>y \<in> set xs. f y \<le> f x) xs"
    using assms by (intro find_cong) auto
  then show ?thesis
    by (simp add: scanTop_def scan_fold split: option.splits)
qed

lemma scanTop_firstMax: "\<forall>x \<in> set xs. 0 \<le> f x \<Longrightarrow> scanTop f xs = firstMax f xs"
  unfolding firstMax_def by (rule scanTop_first_max) auto

lemma firstMax_None: "firstMax f xs = None \<longleftrightarrow> xs = []"
proof
  assume none: "firstMax f xs = None"
  show "xs = []"
  proof (rule ccontr)
    assume "xs \<noteq> []"
    then have "Max (f ` set xs) \<in> f ` set xs" by (intro Max_in) auto
    then obtain z where "z \<in> set xs" "f z = Max (f ` set xs)" by auto
    then have "z \<in> set xs \<and> (\<forall>y \<in> set xs. f y \<le> f z)" by simp
    with none show False unfolding firstMax_def find_None_iff by blast
  qed
qed (simp add: firstMax_def)

lemma firstMax_Some:
  "firstMax f xs = Some x \<Longrightarrow>
     \<exists>ys zs. xs = ys @ x # zs \<and> (\<forall>y \<in> set ys. f y < f x) \<and> (\<forall>z \<in> set zs. f z \<le> f x)"
proof -
  assume "firstMax f xs = Some x"
  then obtain i where i: "i < length xs" "\<forall>y \<in> set xs. f y \<le> f x" "x = xs ! i"
      "\<forall>j<i. \<not> (\<forall>y \<in> set xs. f y \<le> f (xs ! j))"
    unfolding firstMax_def find_Some_iff by blast
  have split: "xs = take i xs @ x # drop (Suc i) xs"
    using i(1,3) by (simp add: id_take_nth_drop)
  have before: "\<forall>y \<in> set (take i xs). f y < f x"
  proof
    fix y assume "y \<in> set (take i xs)"
    then obtain j where j: "j < i" "y = xs ! j"
      using i(1) by (auto simp: in_set_conv_nth)
    with i(4) obtain w where w: "w \<in> set xs" "\<not> f w \<le> f y" by blast
    with i(2) show "f y < f x" by force
  qed
  have after: "\<forall>z \<in> set (drop (Suc i) xs). f z \<le> f x"
    using i(2) by (meson in_set_dropD)
  from split before after show ?thesis by blast
qed

lemma firstMax_js_sort_state_cmp:
  "firstMax percentage (js_sort state_cmp xs) = firstMax percentage xs"
  using find_least_sort_key [of xs "\<lambda>s. - percentage s"]
  by (simp add: firstMax_def js_sort_state_cmp)

subsection \<open>Rounding and targets\<close>

lemma Math_round_pct:
  assumes "0 < t"
  shows "Math_round (of_int c / of_int t * 100) = (200 * c + t) div (2 * t)"
proof -
  have "of_int c / of_int t * 100 + 1 / 2 = (of_int (200 * c + t) :: rat) / of_int (2 * t)"
    using assms by (simp add: field_simps)
  then show ?thesis
    by (simp only: Math_round_def floor_divide_of_int_eq)
qed

lemma Math_round_nonneg: "0 \<le> x \<Longrightarrow> 0 \<le> Math_round x"
  by (simp add: Math_round_def)

lemma pct_nonneg: "0 \<le> c \<Longrightarrow> 0 \<le> pct c t"
  by (simp add: pct_def Math_round_nonneg)

lemma pct_int: "pct c t = (if 0 < t then (200 * c + t) div (2 * t) else 0)"
proof (cases "0 < t")
  case True
  then show ?thesis unfolding pct_def by (simp only: Math_round_pct if_True)
next
  case False
  then show ?thesis unfolding pct_def by (simp only: if_False)
qed

lemma PRESET_TARGETS_pos: "(k, t) \<in> set PRESET_TARGETS \<Longrightarrow> 0 < t"
  by (auto simp: PRESET_TARGETS_def)

lemma PRESET_TARGETS_p1_pos: "(k, t) \<in> set PRESET_TARGETS_p1 \<Longrightarrow> 0 < t"
  by (auto simp: PRESET_TARGETS_p1_def)

lemma target_of_nonneg:
  "(\<And>k t. (k, t) \<in> set T \<Longrightarrow> 0 < t) \<Longrightarrow> 0 \<le> target_of T key"
  by (auto simp: target_of_def split: option.splits dest!: map_of_SomeD) force

lemma total_PRESET_TARGETS: "foldl (\<lambda>a b. a + b) 0 (map snd PRESET_TARGETS) = 221"
  by (simp add: PRESET_TARGETS_def)

lemma total_PRESET_TARGETS_p1: "foldl (\<lambda>a b. a + b) 0 (map snd PRESET_TARGETS_p1) = 222"
  by (simp add: PRESET_TARGETS_p1_def)

lemma mkTotalTarget_nonneg:
  "0 \<le> mkTotalTarget PRESET_TARGETS u" "0 \<le> mkTotalTarget PRESET_TARGETS_p1 u"
  using target_of_nonneg [of PRESET_TARGETS u, OF PRESET_TARGETS_pos]
        target_of_nonneg [of PRESET_TARGETS_p1 u, OF PRESET_TARGETS_p1_pos]
  by (simp_all add: mkTotalTarget_def total_PRESET_TARGETS total_PRESET_TARGETS_p1)

section \<open>Facts about the aggregation\<close>

subsection \<open>The two dictionaries\<close>

lemma map_of_bump:
  "map_of (bump k m) k' =
     (if k' = k then Some ((case map_of m k of None \<Rightarrow> 0 | Some n \<Rightarrow> n) + 1) else map_of m k')"
  by (induction k m rule: bump.induct) auto


lemma keys_bump:
  "map fst (bump k m) = (if k \<in> set (map fst m) then map fst m else map fst m @ [k])"
  by (induction k m rule: bump.induct) auto

lemma aggregate_Nil: "aggregate [] = ([], [])"
  by (simp add: aggregate_def)

lemma aggregate_snoc:
  "aggregate (recs @ [r]) =
     (bump (dateKey r) (fst (aggregate recs)),
      add_member (stateKey r) (no_pekerja r) (snd (aggregate recs)))"
  by (simp add: aggregate_def case_prod_unfold)

lemma aggregate_p1_Nil: "aggregate_p1 [] = ([], [])"
  by (simp add: aggregate_p1_def)

lemma aggregate_p1_snoc:
  "aggregate_p1 (recs @ [r]) =
     (bump (dateKey r) (fst (aggregate_p1 recs)), bump (stateKey r) (snd (aggregate_p1 recs)))"
  by (simp add: aggregate_p1_def case_prod_unfold)

lemma counter_fold:
  "map_of (foldl (\<lambda>m r. bump (key r) m) [] recs) k =
     (if k \<in> key ` set recs then Some (int (length (filter (\<lambda>r. key r = k) recs))) else None)"
proof (induction recs rule: rev_induct)
  case Nil
  then show ?case by simp
next
  case (snoc r recs)
  show ?case
  proof (cases "key r = k")
    case True
    have "filter (\<lambda>r. key r = k) recs = []" if "k \<notin> key ` set recs"
      using that by (rule filter_key_empty)
    with True snoc show ?thesis
      by (simp add: map_of_bump)
  next
    case False
    with snoc show ?thesis
      by (auto simp: map_of_bump)
  qed
qed

lemma counter_fold_distinct: "distinct (map fst (foldl (\<lambda>m r. bump (key r) m) [] recs))"
  by (induction recs rule: rev_induct) (auto simp: keys_bump)

lemma fst_aggregate: "fst (aggregate recs) = foldl (\<lambda>m r. bump (dateKey r) m) [] recs"
  by (induction recs rule: rev_induct) (simp_all add: aggregate_Nil aggregate_snoc)

lemma fst_aggregate_p1: "fst (aggregate_p1 recs) = foldl (\<lambda>m r. bump (dateKey r) m) [] recs"
  by (induction recs rule: rev_induct) (simp_all add: aggregate_p1_Nil aggregate_p1_snoc)

lemma snd_aggregate_p1: "snd (aggregate_p1 recs) = foldl (\<lambda>m r. bump (stateKey r) m) [] recs"
  by (induction recs rule: rev_induct) (simp_all add: aggregate_p1_Nil aggregate_p1_snoc)



lemma uniqueCount_nonneg: "0 \<le> uniqueCount m k"
  by (simp add: uniqueCount_def Set_size_def split: option.splits)

lemma plainCount_aggregate_p1:
  "plainCount (snd (aggregate_p1 recs)) k = int (length (filter (\<lambda>r. stateKey r = k) recs))"
proof (cases "k \<in> stateKey ` set recs")
  case True
  then show ?thesis
    by (simp add: plainCount_def snd_aggregate_p1 counter_fold)
next
  case False
  then have "filter (\<lambda>r. stateKey r = k) recs = []" by (auto simp: filter_empty_conv)
  with False show ?thesis by (simp add: plainCount_def snd_aggregate_p1 counter_fold)
qed

lemma plainCount_nonneg: "0 \<le> plainCount (snd (aggregate_p1 recs)) k"
  by (simp add: plainCount_aggregate_p1)

subsection \<open>The fields of the result\<close>

lemma filtered_all: "filtered raw ''all'' ''all'' ''all'' = raw"
  by (simp add: filtered_def matches_def)

lemma stats_fields:
  "filteredData (stats g raw ms d s u) = filtered raw d s u"
  "totalParticipants (stats g raw ms d s u) = Set_size (new_Set (map no_pekerja (filtered raw d s u)))"
  "totalTarget (stats g raw ms d s u) = mkTotalTarget PRESET_TARGETS u"
  "overallPercentage (stats g raw ms d s u) =
     pct (Set_size (new_Set (map no_pekerja (filtered raw d s u)))) (mkTotalTarget PRESET_TARGETS u)"
  "stateDistribution (stats g raw ms d s u) =
     mkStateDistribution PRESET_TARGETS (uniqueCount (snd (aggregate (filtered raw d s u)))) u"
  "dateDistribution (stats g raw ms d s u) = mkDateDistribution g (fst (aggregate (filtered raw d s u)))"
  "topDay (stats g raw ms d s u) = scanTop dcount (dateDistribution (stats g raw ms d s u))"
  "topState (stats g raw ms d s u) = scanTop percentage (stateDistribution (stats g raw ms d s u))"
  by (simp_all add: stats_def Let_def case_prod_unfold)

lemma stats_notRegistered:
  "notRegisteredData (stats g raw ms d s u) =
     (let absent = filter (\<lambda>staff. \<not> Set_has (new_Set (map no_pekerja (filtered raw d s u))) (m_no_pekerja staff)) ms
      in if u \<noteq> ''all'' then filter (\<lambda>staff. m_wing_negeri staff = Some u) absent else absent)"
  by (simp add: stats_def Let_def case_prod_unfold)

lemma notRegistered_eq:
  "notRegisteredData (stats g raw ms d s u) =
     (if u = ''all'' then rosterComplement ms (filtered raw d s u)
      else filter (\<lambda>staff. m_wing_negeri staff = Some u) (rosterComplement ms (filtered raw d s u)))"
  by (simp add: stats_notRegistered rosterComplement_def Set_has_def set_new_Set Let_def)

lemma stats_p1_fields:
  "totalParticipants (stats_p1 g raw d s u) = int (length (filtered raw d s u))"
  "totalTarget (stats_p1 g raw d s u) = mkTotalTarget PRESET_TARGETS_p1 u"
  "overallPercentage (stats_p1 g raw d s u) =
     pct (int (length (filtered raw d s u))) (mkTotalTarget PRESET_TARGETS_p1 u)"
  "stateDistribution (stats_p1 g raw d s u) =
     mkStateDistribution PRESET_TARGETS_p1 (plainCount (snd (aggregate_p1 (filtered raw d s u)))) u"
  "dateDistribution (stats_p1 g raw d s u) = mkDateDistribution g (fst (aggregate_p1 (filtered raw d s u)))"
  "topDay (stats_p1 g raw d s u) = scanTop dcount (dateDistribution (stats_p1 g raw d s u))"
  "topState (stats_p1 g raw d s u) = scanTop percentage (stateDistribution (stats_p1 g raw d s u))"
  by (simp_all add: stats_p1_def Let_def case_prod_unfold)

lemma set_mkStateDistribution:
  "set (mkStateDistribution T c u) = mkStateStat T c ` set (stateKeys T u)"
  by (simp add: mkStateDistribution_def stateEntries_def set_js_sort)

lemma mkStateStat_sel:
  "state (mkStateStat T c k) = k"
  "count (mkStateStat T c k) = c k"
  "target (mkStateStat T c k) = target_of T k"
  "percentage (mkStateStat T c k) = pct (c k) (target_of T k)"
  by (simp_all add: mkStateStat_def Let_def)

lemma stateEntries_nonneg:
  "(\<And>k. 0 \<le> c k) \<Longrightarrow> \<forall>e \<in> set (mkStateDistribution T c u). 0 \<le> percentage e"
  by (auto simp: set_mkStateDistribution mkStateStat_sel pct_nonneg)

lemma topState_firstMax:
  assumes "\<And>k. 0 \<le> c k"
  shows "scanTop percentage (mkStateDistribution T c u) = firstMax percentage (stateEntries T c u)"
proof -
  have "scanTop percentage (mkStateDistribution T c u) = firstMax percentage (mkStateDistribution T c u)"
    using stateEntries_nonneg [of c T u] assms by (intro scanTop_firstMax) simp
  then show ?thesis
    by (simp add: mkStateDistribution_def firstMax_js_sort_state_cmp)
qed

lemma stateKeys_nonempty: "stateKeys PRESET_TARGETS u \<noteq> []" "stateKeys PRESET_TARGETS_p1 u \<noteq> []"
  by (simp_all add: stateKeys_def PRESET_TARGETS_def PRESET_TARGETS_p1_def)

lemma map_state_stateEntries: "map state (stateEntries T c u) = stateKeys T u"
  by (simp add: stateEntries_def mkStateStat_sel comp_def)

lemma sorted_mkStateDistribution:
  "sorted_wrt (\<lambda>a b. percentage b \<le> percentage a) (mkStateDistribution T c u)"
proof -
  have "sorted (map (\<lambda>s. - percentage s) (sort_key (\<lambda>s. - percentage s) (stateEntries T c u)))"
    by (rule sorted_sort_key)
  then show ?thesis
    by (simp add: mkStateDistribution_def js_sort_state_cmp sorted_map)
qed

subsection \<open>The per-date counts\<close>

lemma set_Object_entries: "set (Object_entries obj) = set obj"
  by (auto simp: Object_entries_def)

lemma set_mkDateDistribution:
  "set (mkDateDistribution g dm) = (\<lambda>(k, n). \<lparr>date = k, dcount = n\<rparr>) ` set dm"
  by (simp add: mkDateDistribution_def set_js_sort set_Object_entries)

lemma dateMap_entries:
  "(k, n) \<in> set (foldl (\<lambda>m r. bump (dateKey r) m) [] recs) \<longleftrightarrow>
     k \<in> dateKey ` set recs \<and> n = int (length (filter (\<lambda>r. dateKey r = k) recs))"
  using map_of_eq_Some_iff [OF counter_fold_distinct, of dateKey recs k n]
  by (auto simp: counter_fold split: if_splits)

lemma dateDistribution_entries:
  "e \<in> set (mkDateDistribution g (foldl (\<lambda>m r. bump (dateKey r) m) [] recs)) \<longleftrightarrow>
     date e \<in> dateKey ` set recs \<and> dcount e = int (length (filter (\<lambda>r. dateKey r = date e) recs))"
proof -
  have "e \<in> (\<lambda>(k, n). \<lparr>date = k, dcount = n\<rparr>) ` set dm \<longleftrightarrow> (date e, dcount e) \<in> set dm"
    for dm :: "(string \<times> int) list"
    by (cases e) (auto simp: image_iff intro: bexI [where x = "(date e, dcount e)"])
  then show ?thesis
    by (simp add: set_mkDateDistribution dateMap_entries)
qed

lemma dateDistribution_positive:
  "e \<in> set (mkDateDistribution g (foldl (\<lambda>m r. bump (dateKey r) m) [] recs)) \<Longrightarrow> 1 \<le> dcount e"
  using filter_key_nonempty [of "date e" dateKey recs]
  by (simp add: dateDistribution_entries)

lemma dateDistribution_Nil:
  "mkDateDistribution g (foldl (\<lambda>m r. bump (dateKey r) m) [] recs) = [] \<longleftrightarrow> recs = []"
proof -
  have "set (mkDateDistribution g (foldl (\<lambda>m r. bump (dateKey r) m) [] recs)) = {} \<longleftrightarrow> recs = []"
  proof (cases recs)
    case Nil
    then show ?thesis by (simp add: set_mkDateDistribution)
  next
    case (Cons r rest)
    have "\<lparr>date = dateKey r, dcount = int (length (filter (\<lambda>x. dateKey x = dateKey r) recs))\<rparr>
            \<in> set (mkDateDistribution g (foldl (\<lambda>m r. bump (dateKey r) m) [] recs))"
      unfolding dateDistribution_entries using Cons by simp
    with Cons show ?thesis by auto
  qed
  then show ?thesis by simp
qed

lemma topDay_firstMax_gen:
  "scanTop dcount (mkDateDistribution g (foldl (\<lambda>m r. bump (dateKey r) m) [] recs)) =
     firstMax dcount (mkDateDistribution g (foldl (\<lambda>m r. bump (dateKey r) m) [] recs))"
proof (rule scanTop_firstMax, rule ballI)
  fix e assume "e \<in> set (mkDateDistribution g (foldl (\<lambda>m r. bump (dateKey r) m) [] recs))"
  from dateDistribution_positive [OF this] show "0 \<le> dcount e" by simp
qed

lemma dateDistribution_ascending:
  assumes "\<forall>r \<in> set recs. g (dateKey r) \<noteq> None"
  shows "sorted (map (\<lambda>e. the (g (date e)))
           (mkDateDistribution g (foldl (\<lambda>m r. bump (dateKey r) m) [] recs)))"
proof -
  let ?dm = "foldl (\<lambda>m r. bump (dateKey r) m) [] recs"
  have "\<forall>e \<in> set (map (\<lambda>(k, n). \<lparr>date = k, dcount = n\<rparr>) (Object_entries ?dm)).
          g (date e) \<noteq> None"
    using assms by (auto simp: dateMap_entries set_Object_entries)
  then have "mkDateDistribution g ?dm =
             sort_key (\<lambda>e. the (g (date e)))
               (map (\<lambda>(k, n). \<lparr>date = k, dcount = n\<rparr>) (Object_entries ?dm))"
    unfolding mkDateDistribution_def by (rule js_sort_date_cmp)
  then show ?thesis by simp
qed

subsection \<open>Unfolding for concrete inputs\<close>

lemmas eval_defs =
  attendee_def rosterEntry_def stat_def filtered_def matches_def aggregate_def aggregate_p1_def
  dateKey_def stateKey_def trim_or_def trim_def is_space_def Set_add_def new_Set_def Set_size_def
  Set_has_def mkStateDistribution_def stateEntries_def stateKeys_def mkStateStat_def target_of_def
  uniqueCount_def plainCount_def pct_int js_sort_def SortCompare_def state_cmp_def
  date_cmp_def mkDateDistribution_def mkTotalTarget_def scanTop_def sampleTime_def firstMax_def
  rosterComplement_def Object_entries_def isArrayIndex_def indexValue_def Let_def


lemma Object_entries_example:
  "Object_entries [(''20260121'', 1::int), (''N/A'', 2), (''20260120'', 3), (''007'', 4)] =
     [(''20260120'', 3), (''20260121'', 1), (''N/A'', 2), (''007'', 4)]"
  by (simp add: Object_entries_def isArrayIndex_def indexValue_def)




section \<open>Head counts: de-duplicated in one variant, per record in the other\<close>


text \<open>The filter compares the raw unit with the selected one while the buckets are
  keyed by the trimmed unit: with the untrimmed unit of F002 selected, F002 is in the
  filtered set and the selected unit shows no attendee. The statement below is
  about unit values on which filter and buckets agree (\<open>cleanUnit\<close>).\<close>

lemma untrimmed_selection_counts_nothing:
  "map no_pekerja (filtered sampleRaw ''all'' ''all'' '' FAMA PERLIS '') = [''F002''] \<and>
   stateDistribution (stats sampleTime sampleRaw [] ''all'' ''all'' '' FAMA PERLIS '') =
     [stat '' FAMA PERLIS '' 0 0 0]"
  by (simp add: stats_fields sampleRaw_def eval_defs PRESET_TARGETS_def)



section \<open>Percentages\<close>

text \<open>
  Claim C2. In both variants, for every entry of \<open>stateDistribution\<close> the target is not
  negative, the percentage is \<open>Math.round(count / target * 100)\<close> when the target is
  positive and 0 when the target is 0; the same holds of \<open>overallPercentage\<close> with
  \<open>totalParticipants\<close> and \<open>totalTarget\<close>.
\<close>

theorem percentage_is_rounded_ratio:
  fixes g :: "string \<Rightarrow> int option"
  shows "(\<forall>e \<in> set (stateDistribution (stats g raw ms d s u)) \<union> set (stateDistribution (stats_p1 g raw d s u)).
            0 \<le> target e \<and>
            (0 < target e \<longrightarrow> percentage e = Math_round (of_int (count e) / of_int (target e) * 100)) \<and>
            (target e = 0 \<longrightarrow> percentage e = 0)) \<and>
         0 \<le> totalTarget (stats g raw ms d s u) \<and>
         (0 < totalTarget (stats g raw ms d s u) \<longrightarrow>
            overallPercentage (stats g raw ms d s u) =
              Math_round (of_int (totalParticipants (stats g raw ms d s u)) /
                          of_int (totalTarget (stats g raw ms d s u)) * 100)) \<and>
         (totalTarget (stats g raw ms d s u) = 0 \<longrightarrow> overallPercentage (stats g raw ms d s u) = 0) \<and>
         0 \<le> totalTarget (stats_p1 g raw d s u) \<and>
         (0 < totalTarget (stats_p1 g raw d s u) \<longrightarrow>
            overallPercentage (stats_p1 g raw d s u) =
              Math_round (of_int (totalParticipants (stats_p1 g raw d s u)) /
                          of_int (totalTarget (stats_p1 g raw d s u)) * 100)) \<and>
         (totalTarget (stats_p1 g raw d s u) = 0 \<longrightarrow> overallPercentage (stats_p1 g raw d s u) = 0)"
proof -
  have t: "0 \<le> target_of PRESET_TARGETS k" "0 \<le> target_of PRESET_TARGETS_p1 k" for k
    using target_of_nonneg [of PRESET_TARGETS k, OF PRESET_TARGETS_pos]
          target_of_nonneg [of PRESET_TARGETS_p1 k, OF PRESET_TARGETS_p1_pos]
    by simp_all
  have units: "0 \<le> target e \<and>
        (0 < target e \<longrightarrow> percentage e = Math_round (of_int (count e) / of_int (target e) * 100)) \<and>
        (target e = 0 \<longrightarrow> percentage e = 0)"
    if "e \<in> set (stateDistribution (stats g raw ms d s u)) \<union> set (stateDistribution (stats_p1 g raw d s u))"
    for e
    using that t
    by (auto simp: stats_fields stats_p1_fields set_mkStateDistribution mkStateStat_sel pct_def)
  have overall: "0 \<le> totalTarget (stats g raw ms d s u)" "0 \<le> totalTarget (stats_p1 g raw d s u)"
    using mkTotalTarget_nonneg [of u] by (simp_all add: stats_fields stats_p1_fields)
  have pos: "0 < totalTarget (stats g raw ms d s u) \<Longrightarrow>
               overallPercentage (stats g raw ms d s u) =
                 Math_round (of_int (totalParticipants (stats g raw ms d s u)) /
                             of_int (totalTarget (stats g raw ms d s u)) * 100)"
            "0 < totalTarget (stats_p1 g raw d s u) \<Longrightarrow>
               overallPercentage (stats_p1 g raw d s u) =
                 Math_round (of_int (totalParticipants (stats_p1 g raw d s u)) /
                             of_int (totalTarget (stats_p1 g raw d s u)) * 100)"
    by (simp_all add: stats_fields stats_p1_fields pct_def)
  have zero: "totalTarget (stats g raw ms d s u) = 0 \<Longrightarrow> overallPercentage (stats g raw ms d s u) = 0"
             "totalTarget (stats_p1 g raw d s u) = 0 \<Longrightarrow> overallPercentage (stats_p1 g raw d s u) = 0"
    by (simp_all add: stats_fields stats_p1_fields pct_def)
  from units overall pos zero show ?thesis by blast
qed

theorem percentage_is_rounded_ratio_witness:
  "stateDistribution (stats sampleTime sampleRaw [] ''all'' ''all'' ''FAMA PERLIS'') = [stat ''FAMA PERLIS'' 1 6 17] \<and>
   Math_round (1 / 6 * 100) = 17 \<and>
   stateDistribution (stats sampleTime sampleRaw [] ''all'' ''all'' ''Lain-lain'') = [stat ''Lain-lain'' 0 0 0] \<and>
   totalTarget (stats_p1 sampleTime sampleRaw ''all'' ''all'' ''all'') = 222 \<and>
   totalParticipants (stats_p1 sampleTime sampleRaw ''all'' ''all'' ''all'') = 5 \<and>
   overallPercentage (stats_p1 sampleTime sampleRaw ''all'' ''all'' ''all'') = Math_round (5 / 222 * 100)"
proof -
  have sd: "stateDistribution (stats sampleTime sampleRaw [] ''all'' ''all'' ''FAMA PERLIS'') =
              [stat ''FAMA PERLIS'' 1 6 17]"
    by (simp add: stats_fields sampleRaw_def eval_defs PRESET_TARGETS_def)
  have sl: "stateDistribution (stats sampleTime sampleRaw [] ''all'' ''all'' ''Lain-lain'') =
              [stat ''Lain-lain'' 0 0 0]"
    by (simp add: stats_fields sampleRaw_def eval_defs PRESET_TARGETS_def)
  have tt: "totalTarget (stats_p1 sampleTime sampleRaw ''all'' ''all'' ''all'') = 222"
           "totalParticipants (stats_p1 sampleTime sampleRaw ''all'' ''all'' ''all'') = 5"
    by (simp_all add: stats_p1_fields sampleRaw_def eval_defs PRESET_TARGETS_p1_def)
  show ?thesis
    using percentage_is_rounded_ratio [of sampleTime sampleRaw "[]" "''all''" "''all''" "''FAMA PERLIS''"]
          percentage_is_rounded_ratio [of sampleTime sampleRaw "[]" "''all''" "''all''" "''all''"]
    by (simp add: sd sl tt stat_def)
qed

section \<open>Winner lock: a lock, once set, stays\<close>

lemma lockWinner_keeps:
  "sessionWinners st k = Some w \<Longrightarrow> sessionWinners (lockWinner sel sd now st) k = Some w"
  by (auto simp: lockWinner_def truthyAt_def Let_def split: option.splits)

lemma lockWinnerRuns_keeps:
  "sessionWinners st k = Some w \<Longrightarrow> sessionWinners (lockWinnerRuns runs st) k = Some w"
proof (induction runs arbitrary: st)
  case Nil
  then show ?case by simp
next
  case (Cons r runs)
  obtain sel sd now where r: "r = (sel, sd, now)" by (cases r) auto
  from Cons.prems have "sessionWinners (lockWinner sel sd now st) k = Some w"
    by (rule lockWinner_keeps)
  then show ?case unfolding r by (simp add: Cons.IH)
qed

lemma lockWinner_writes_absent:
  "sessionWinners (lockWinner sel sd now st) k \<noteq> sessionWinners st k \<Longrightarrow>
     sessionWinners st k = None \<and> k = sel"
  by (auto simp: lockWinner_def truthyAt_def Let_def split: option.splits if_splits)

text \<open>
  Claim C3. Once \<open>sessionWinners\<close> holds a lock for a session key, no sequence of
  later runs of the lock step changes or removes that entry, whatever session is
  selected and whatever distribution the aggregation produced; and a run changes
  the entry of a key only if that key is the selected session and had no entry.
\<close>

theorem winner_lock_fixed_once_set:
  "(sessionWinners st k = Some w \<longrightarrow> sessionWinners (lockWinnerRuns runs st) k = Some w) \<and>
   (sessionWinners (lockWinner sel sd now st) k \<noteq> sessionWinners st k \<longrightarrow>
      sessionWinners st k = None \<and> k = sel)"
  using lockWinnerRuns_keeps lockWinner_writes_absent by blast

theorem winner_lock_fixed_once_set_witness:
  "sessionWinners lockedSesi1 ''Sesi 1'' =
     Some \<lparr>w_state = ''FAMA PERLIS'', w_percentage = 117, w_timestamp = ''2026-01-20T02:00:00.000Z''\<rparr> \<and>
   sessionWinners
     (lockWinnerRuns [(''Sesi 1'', [stat ''FAMA MELAKA'' 9 8 113], ''T1''),
                      (''Sesi 2'', [stat ''FAMA MELAKA'' 9 8 113], ''T2'')] lockedSesi1) ''Sesi 1'' =
     Some \<lparr>w_state = ''FAMA PERLIS'', w_percentage = 117, w_timestamp = ''2026-01-20T02:00:00.000Z''\<rparr> \<and>
   sessionWinners (lockWinner ''Sesi 2'' [stat ''FAMA MELAKA'' 9 8 113] ''T2'' lockedSesi1) ''Sesi 2''
     \<noteq> sessionWinners lockedSesi1 ''Sesi 2'' \<and>
   sessionWinners lockedSesi1 ''Sesi 2'' = None"
  using winner_lock_fixed_once_set
          [of lockedSesi1 "''Sesi 1''"
              "\<lparr>w_state = ''FAMA PERLIS'', w_percentage = 117, w_timestamp = ''2026-01-20T02:00:00.000Z''\<rparr>"
              "[(''Sesi 1'', [stat ''FAMA MELAKA'' 9 8 113], ''T1''),
                (''Sesi 2'', [stat ''FAMA MELAKA'' 9 8 113], ''T2'')]"
              "''Sesi 2''" "[stat ''FAMA MELAKA'' 9 8 113]" "''T2''"]
  by (simp add: lockedSesi1_def stat_def lockWinner_def truthyAt_def Object_prototype_names_def Let_def)

section \<open>Winner lock: the transition from unlocked to locked\<close>

text \<open>For a session key that no plain object inherits (\<open>''all''\<close> being a key like any
  other) and that has no recorded winner: if some unit of the current distribution
  has a percentage of at least 100, a lock for that key is recorded, holding the
  first such unit, its percentage and the time of the run, and the same dictionary
  is written to local storage; if no unit has, the state is unchanged.\<close>

lemma lockWinner_transition_plain_key:
  assumes "sessionWinners st sel = None" and "plainKey sel"
  shows "((\<exists>s \<in> set sd. percentage s \<ge> 100) \<longrightarrow>
            (\<exists>champion. find (\<lambda>s. percentage s \<ge> 100) sd = Some champion \<and>
               sessionWinners (lockWinner sel sd now st) sel =
                 Some \<lparr>w_state = state champion, w_percentage = percentage champion, w_timestamp = now\<rparr> \<and>
               localStorage (lockWinner sel sd now st) = Some (sessionWinners (lockWinner sel sd now st)))) \<and>
         (\<not> (\<exists>s \<in> set sd. percentage s \<ge> 100) \<longrightarrow> lockWinner sel sd now st = st)"
proof (cases "find (\<lambda>s. percentage s \<ge> 100) sd")
  case None
  then have same: "lockWinner sel sd now st = st"
    by (simp add: lockWinner_def)
  have "\<not> (\<exists>s \<in> set sd. percentage s \<ge> 100)"
    using None by (simp add: find_None_iff)
  with same show ?thesis by simp
next
  case (Some champion)
  have "\<not> truthyAt (sessionWinners st) sel"
    using assms by (simp add: truthyAt_def plainKey_def)
  with Some find_Some_set [OF Some] show ?thesis
    by (auto simp: lockWinner_def Let_def)
qed

lemma lockWinner_transition_example:
  "sessionWinners lockedSesi1 ''all'' = None \<and>
   sessionWinners
     (lockWinner ''all''
        [stat ''FAMA MELAKA'' 9 8 113, stat ''FAMA PERLIS'' 6 6 100, stat ''FAMA JOHOR'' 3 15 20]
        ''T1'' lockedSesi1) ''all'' =
     Some \<lparr>w_state = ''FAMA MELAKA'', w_percentage = 113, w_timestamp = ''T1''\<rparr> \<and>
   lockWinner ''all'' [stat ''FAMA JOHOR'' 3 15 20] ''T1'' lockedSesi1 = lockedSesi1"
proof -
  have a: "sessionWinners lockedSesi1 ''all'' = None"
    by (simp add: lockedSesi1_def)
  have b: "plainKey ''all''"
    by (simp add: plainKey_def Object_prototype_names_def)
  show ?thesis
    using lockWinner_transition_plain_key
            [OF a b, of "[stat ''FAMA MELAKA'' 9 8 113, stat ''FAMA PERLIS'' 6 6 100, stat ''FAMA JOHOR'' 3 15 20]"
                "''T1''"]
          lockWinner_transition_plain_key [OF a b, of "[stat ''FAMA JOHOR'' 3 15 20]" "''T1''"]
          a
    by (simp add: stat_def)
qed

text \<open>
  Claim C4, evaluated at a session whose label is an inherited property name. The
  guard \<open>if (sessionWinners[currentSessionKey]) return\<close> is meant to skip a session that
  already has a winner; on the plain object \<open>sessionWinners\<close> the key
  \<open>constructor\<close> reads the inherited function, which is truthy. With six attendees of
  FAMA PERLIS (target 6) in the session \<open>constructor\<close>, that session selected and no
  winner recorded for any key, the head of the distribution stands at 100 percent
  and the lock step records nothing.
\<close>

theorem inherited_session_name_never_locks:
  "sessionWinners noWinners ''constructor'' = None \<and>
   hd (stateDistribution (stats sampleTime ctorRaw [] ''all'' ''constructor'' ''all'')) =
     stat ''FAMA PERLIS'' 6 6 100 \<and>
   lockWinner ''constructor''
     (stateDistribution (stats sampleTime ctorRaw [] ''all'' ''constructor'' ''all'')) ''T1'' noWinners =
     noWinners \<and>
   sessionWinners
     (lockWinner ''constructor''
        (stateDistribution (stats sampleTime ctorRaw [] ''all'' ''constructor'' ''all'')) ''T1'' noWinners)
     ''constructor'' = None"
proof -
  have hd: "hd (stateDistribution (stats sampleTime ctorRaw [] ''all'' ''constructor'' ''all'')) =
              stat ''FAMA PERLIS'' 6 6 100"
    by (simp add: stats_fields ctorRaw_def eval_defs PRESET_TARGETS_def)
  have same: "lockWinner ''constructor'' sd ''T1'' noWinners = noWinners" for sd
    by (simp add: lockWinner_def truthyAt_def noWinners_def Object_prototype_names_def)
  show ?thesis
    by (simp add: hd same) (simp add: noWinners_def)
qed

section \<open>The roster complement\<close>

text \<open>
  Claim C5, as stated, at a concrete input. With the unit filter on FAMA PERLIS, the
  roster member F009 of FAMA JOHOR has no record in the filtered attendance set, yet
  \<open>notRegisteredData\<close> is empty: it is neither the roster minus the filtered
  identifiers, nor empty only when every roster member has a matching record.
\<close>

theorem roster_complement_ignores_other_units:
  "notRegisteredData (stats sampleTime sampleRaw sampleRoster ''all'' ''all'' ''FAMA PERLIS'') = [] \<and>
   rosterComplement sampleRoster
     (filteredData (stats sampleTime sampleRaw sampleRoster ''all'' ''all'' ''FAMA PERLIS'')) =
     [rosterEntry ''F009'' (Some ''FAMA JOHOR'')] \<and>
   notRegisteredData (stats sampleTime sampleRaw sampleRoster ''all'' ''all'' ''FAMA PERLIS'') \<noteq>
     rosterComplement sampleRoster
       (filteredData (stats sampleTime sampleRaw sampleRoster ''all'' ''all'' ''FAMA PERLIS''))"
  by (simp add: notRegistered_eq stats_fields sampleRaw_def sampleRoster_def eval_defs)

text \<open>
  Claim C5, amended. \<open>notRegisteredData\<close> is the list of roster members whose
  identifier does not occur in the filtered attendance set and who, when a unit is
  selected, belong to the selected unit. With no unit selected it is the roster minus
  the filtered identifiers. It is empty exactly when every roster member of the
  selected unit (every roster member, with no unit selected) has a matching filtered
  record.
\<close>

theorem roster_complement_within_selected_unit:
  fixes g :: "string \<Rightarrow> int option"
  defines "inUnit \<equiv> \<lambda>u staff. u = ''all'' \<or> m_wing_negeri staff = Some u"
  shows "notRegisteredData (stats g raw ms d s u) =
           filter (inUnit u) (rosterComplement ms (filteredData (stats g raw ms d s u))) \<and>
         (u = ''all'' \<longrightarrow>
            notRegisteredData (stats g raw ms d s u) =
              rosterComplement ms (filteredData (stats g raw ms d s u))) \<and>
         (notRegisteredData (stats g raw ms d s u) = [] \<longleftrightarrow>
            (\<forall>staff \<in> set ms. inUnit u staff \<longrightarrow>
               m_no_pekerja staff \<in> no_pekerja ` set (filteredData (stats g raw ms d s u))))"
proof -
  have eq: "notRegisteredData (stats g raw ms d s u) =
              filter (inUnit u) (rosterComplement ms (filtered raw d s u))"
    by (simp add: notRegistered_eq inUnit_def)
  have empty: "filter (inUnit u) (rosterComplement ms (filtered raw d s u)) = [] \<longleftrightarrow>
                 (\<forall>staff \<in> set ms. inUnit u staff \<longrightarrow>
                    m_no_pekerja staff \<in> no_pekerja ` set (filtered raw d s u))"
    by (auto simp: filter_empty_conv rosterComplement_def)
  have all: "u = ''all'' \<Longrightarrow>
               notRegisteredData (stats g raw ms d s u) = rosterComplement ms (filtered raw d s u)"
    by (simp add: notRegistered_eq)
  show ?thesis
    unfolding stats_fields using eq empty all by (intro conjI impI) simp_all
qed

theorem roster_complement_within_selected_unit_witness:
  "notRegisteredData (stats sampleTime sampleRaw sampleRoster ''all'' ''all'' ''all'') =
     [rosterEntry ''F009'' (Some ''FAMA JOHOR'')] \<and>
   rosterComplement sampleRoster (filteredData (stats sampleTime sampleRaw sampleRoster ''all'' ''all'' ''all'')) =
     [rosterEntry ''F009'' (Some ''FAMA JOHOR'')] \<and>
   notRegisteredData (stats sampleTime sampleRaw sampleRoster ''all'' ''all'' ''FAMA JOHOR'') =
     [rosterEntry ''F009'' (Some ''FAMA JOHOR'')] \<and>
   notRegisteredData (stats sampleTime sampleRaw sampleRoster ''all'' ''all'' ''FAMA PERLIS'') = []"
  using roster_complement_within_selected_unit [of sampleTime sampleRaw sampleRoster "''all''" "''all''" "''all''"]
        roster_complement_within_selected_unit [of sampleTime sampleRaw sampleRoster "''all''" "''all''" "''FAMA JOHOR''"]
        roster_complement_within_selected_unit [of sampleTime sampleRaw sampleRoster "''all''" "''all''" "''FAMA PERLIS''"]
  by (simp add: stats_fields sampleRaw_def sampleRoster_def eval_defs)

section \<open>The top unit\<close>

text \<open>
  Claim C6. In both variants \<open>topState\<close> is the first entry of maximal percentage in
  the order of the unit list (the keys of the target table, or the one selected
  unit): every entry before it in that order has a smaller percentage and no entry
  after it has a larger one. \<open>stateDistribution\<close> holds the same entries, is never
  empty, and \<open>topState\<close> is never null.
\<close>

theorem topState_first_max_in_unit_order:
  fixes g :: "string \<Rightarrow> int option"
  defines "units \<equiv> \<lambda>raw d s u.
             stateEntries PRESET_TARGETS (uniqueCount (snd (aggregate (filtered raw d s u)))) u"
      and "units_p1 \<equiv> \<lambda>raw d s u.
             stateEntries PRESET_TARGETS_p1 (plainCount (snd (aggregate_p1 (filtered raw d s u)))) u"
  shows "topState (stats g raw ms d s u) = firstMax percentage (units raw d s u) \<and>
         topState (stats_p1 g raw d s u) = firstMax percentage (units_p1 raw d s u) \<and>
         (\<exists>x ys zs. topState (stats g raw ms d s u) = Some x \<and> units raw d s u = ys @ x # zs \<and>
            (\<forall>y \<in> set ys. percentage y < percentage x) \<and> (\<forall>z \<in> set zs. percentage z \<le> percentage x)) \<and>
         (\<exists>x ys zs. topState (stats_p1 g raw d s u) = Some x \<and> units_p1 raw d s u = ys @ x # zs \<and>
            (\<forall>y \<in> set ys. percentage y < percentage x) \<and> (\<forall>z \<in> set zs. percentage z \<le> percentage x)) \<and>
         map state (units raw d s u) = stateKeys PRESET_TARGETS u \<and>
         map state (units_p1 raw d s u) = stateKeys PRESET_TARGETS_p1 u \<and>
         set (stateDistribution (stats g raw ms d s u)) = set (units raw d s u) \<and>
         set (stateDistribution (stats_p1 g raw d s u)) = set (units_p1 raw d s u) \<and>
         (topState (stats g raw ms d s u) = None \<longleftrightarrow> stateDistribution (stats g raw ms d s u) = []) \<and>
         (topState (stats_p1 g raw d s u) = None \<longleftrightarrow> stateDistribution (stats_p1 g raw d s u) = []) \<and>
         stateDistribution (stats g raw ms d s u) \<noteq> [] \<and>
         stateDistribution (stats_p1 g raw d s u) \<noteq> []"
proof -
  have a: "topState (stats g raw ms d s u) = firstMax percentage (units raw d s u)"
    unfolding units_def stats_fields by (rule topState_firstMax) (rule uniqueCount_nonneg)
  have b: "topState (stats_p1 g raw d s u) = firstMax percentage (units_p1 raw d s u)"
    unfolding units_p1_def stats_p1_fields by (rule topState_firstMax) (rule plainCount_nonneg)
  have c: "units raw d s u \<noteq> []" "units_p1 raw d s u \<noteq> []"
    using stateKeys_nonempty [of u] by (simp_all add: units_def units_p1_def stateEntries_def)
  have d: "set (stateDistribution (stats g raw ms d s u)) = set (units raw d s u)"
          "set (stateDistribution (stats_p1 g raw d s u)) = set (units_p1 raw d s u)"
    by (simp_all add: stats_fields stats_p1_fields mkStateDistribution_def set_js_sort units_def units_p1_def)
  from c d have e: "stateDistribution (stats g raw ms d s u) \<noteq> []"
                  "stateDistribution (stats_p1 g raw d s u) \<noteq> []"
    by auto
  from c have f: "firstMax percentage (units raw d s u) \<noteq> None"
                 "firstMax percentage (units_p1 raw d s u) \<noteq> None"
    by (simp_all add: firstMax_None)
  from f(1) obtain x where x: "firstMax percentage (units raw d s u) = Some x" by blast
  from f(2) obtain x' where x': "firstMax percentage (units_p1 raw d s u) = Some x'" by blast
  have h: "\<exists>x ys zs. topState (stats g raw ms d s u) = Some x \<and> units raw d s u = ys @ x # zs \<and>
            (\<forall>y \<in> set ys. percentage y < percentage x) \<and> (\<forall>z \<in> set zs. percentage z \<le> percentage x)"
    using firstMax_Some [OF x] a x by auto
  have h': "\<exists>x ys zs. topState (stats_p1 g raw d s u) = Some x \<and> units_p1 raw d s u = ys @ x # zs \<and>
            (\<forall>y \<in> set ys. percentage y < percentage x) \<and> (\<forall>z \<in> set zs. percentage z \<le> percentage x)"
    using firstMax_Some [OF x'] b x' by auto
  have i: "map state (units raw d s u) = stateKeys PRESET_TARGETS u"
          "map state (units_p1 raw d s u) = stateKeys PRESET_TARGETS_p1 u"
    by (simp_all add: units_def units_p1_def map_state_stateEntries)
  have j: "topState (stats g raw ms d s u) \<noteq> None" "topState (stats_p1 g raw d s u) \<noteq> None"
    using a b f by simp_all
  show ?thesis
    using a b d e h h' i j by (intro conjI) simp_all
qed

theorem topState_first_max_in_unit_order_witness:
  "topState (stats sampleTime tieRaw [] ''all'' ''all'' ''all'') = Some (stat ''KETUA PENGARAH'' 1 10 10) \<and>
   topState (stats_p1 sampleTime tieRaw ''all'' ''all'' ''all'') = Some (stat ''KETUA PENGARAH'' 1 10 10) \<and>
   stat ''FAMA KELANTAN'' 1 10 10 \<in> set (stateDistribution (stats sampleTime tieRaw [] ''all'' ''all'' ''all''))"
  using topState_first_max_in_unit_order [of sampleTime tieRaw "[]" "''all''" "''all''" "''all''"]
  by (simp add: filtered_all tieRaw_def eval_defs PRESET_TARGETS_def PRESET_TARGETS_p1_def)

section \<open>The top day\<close>

text \<open>What holds of \<open>topDay\<close> on every input, and of the order of \<open>dateDistribution\<close>
  when every date key of the filtered set is a date.\<close>

lemma topDay_first_max:
  fixes g :: "string \<Rightarrow> int option"
  shows "topDay (stats g raw ms d s u) = firstMax dcount (dateDistribution (stats g raw ms d s u))"
    and "topDay (stats_p1 g raw d s u) = firstMax dcount (dateDistribution (stats_p1 g raw d s u))"
    and "topDay (stats g raw ms d s u) = None \<longleftrightarrow> filtered raw d s u = []"
    and "topDay (stats_p1 g raw d s u) = None \<longleftrightarrow> filtered raw d s u = []"
  by (simp_all add: stats_fields stats_p1_fields fst_aggregate fst_aggregate_p1 topDay_firstMax_gen
                    firstMax_None dateDistribution_Nil)

lemma dateDistribution_counts:
  fixes g :: "string \<Rightarrow> int option"
  assumes "e \<in> set (dateDistribution (stats g raw ms d s u)) \<union> set (dateDistribution (stats_p1 g raw d s u))"
  shows "dcount e = int (length (filter (\<lambda>r. dateKey r = date e) (filtered raw d s u)))"
  using assms
  by (auto simp: stats_fields stats_p1_fields fst_aggregate fst_aggregate_p1 dateDistribution_entries)

lemma dateDistribution_ascending_when_dates_parse:
  fixes g :: "string \<Rightarrow> int option"
  assumes "\<forall>r \<in> set (filtered raw d s u). g (dateKey r) \<noteq> None"
  shows "sorted (map (\<lambda>e. the (g (date e))) (dateDistribution (stats g raw ms d s u)))"
    and "sorted (map (\<lambda>e. the (g (date e))) (dateDistribution (stats_p1 g raw d s u)))"
  using dateDistribution_ascending [OF assms]
  by (simp_all add: stats_fields stats_p1_fields fst_aggregate fst_aggregate_p1)

text \<open>
  Claim C7, evaluated at an input with a missing date. The comparator of the date
  sort yields \<open>NaN\<close> whenever it meets the key \<open>N/A\<close>, which the aggregation itself
  creates for a record whose date is null or empty; the sort reads \<open>NaN\<close> as "equal"
  and leaves the list as it was filled. With two records on 2026-01-21, then one with
  an empty date, then two on 2026-01-20, \<open>dateDistribution\<close> is not in ascending date
  order and \<open>topDay\<close> is 2026-01-21, although 2026-01-20 has the same count and is
  earlier.
\<close>

theorem topDay_missing_date_breaks_date_order:
  "dateDistribution (stats sampleTime gapRaw [] ''all'' ''all'' ''all'') =
     [\<lparr>date = ''2026-01-21'', dcount = 2\<rparr>, \<lparr>date = ''N/A'', dcount = 1\<rparr>,
      \<lparr>date = ''2026-01-20'', dcount = 2\<rparr>] \<and>
   topDay (stats sampleTime gapRaw [] ''all'' ''all'' ''all'') = Some \<lparr>date = ''2026-01-21'', dcount = 2\<rparr> \<and>
   dateDistribution (stats_p1 sampleTime gapRaw ''all'' ''all'' ''all'') =
     [\<lparr>date = ''2026-01-21'', dcount = 2\<rparr>, \<lparr>date = ''N/A'', dcount = 1\<rparr>,
      \<lparr>date = ''2026-01-20'', dcount = 2\<rparr>] \<and>
   topDay (stats_p1 sampleTime gapRaw ''all'' ''all'' ''all'') = Some \<lparr>date = ''2026-01-21'', dcount = 2\<rparr> \<and>
   sampleTime ''2026-01-20'' = Some 1768867200000 \<and>
   sampleTime ''2026-01-21'' = Some 1768953600000 \<and>
   sampleTime ''N/A'' = None"
  by (simp add: stats_fields stats_p1_fields filtered_all gapRaw_def eval_defs)

section \<open>Data refresh: the record set changes only on success\<close>

lemma fetchWith_failure:
  "succeeded outcome = None \<Longrightarrow>
     rawData (fetchWith dflt outcome now st) = rawData st \<and>
     lastUpdated (fetchWith dflt outcome now st) = lastUpdated st"
  by (cases outcome rule: succeeded.cases) (auto simp: fetchWith_def Let_def split: option.splits)

lemma fetchWith_success:
  "succeeded outcome = Some d \<Longrightarrow>
     rawData (fetchWith dflt outcome now st) = d \<and>
     lastUpdated (fetchWith dflt outcome now st) = now \<and>
     error (fetchWith dflt outcome now st) = None"
  by (cases outcome rule: succeeded.cases) (auto simp: fetchWith_def Let_def)

lemma fetchWith_error:
  "error (fetchWith dflt ConfigMissing now st) = Some ''Supabase configuration missing.''"
  "error (fetchWith dflt (Rejected err) now st) = Some (errMessage dflt err)"
  "error (fetchWith dflt (Response data (Some err)) now st) = Some (errMessage dflt err)"
  by (simp_all add: fetchWith_def Let_def errMessage_def)

lemma fetchWith_loading: "loading (fetchWith dflt outcome now st) = False"
  by (simp add: fetchWith_def Let_def)

text \<open>
  Claim C8. In both variants of \<open>fetchAttendanceData\<close>: when the refresh fails
  (no client configured, a rejected request, or a response carrying an error) an
  error message is recorded and the loaded record set is left as it was; when the
  response carries rows and no error, the record set becomes exactly those rows and
  no error is recorded; so the record set differs after a refresh only if the
  refresh succeeded.
\<close>

theorem refresh_replaces_data_only_on_success:
  fixes st :: AppState and outcome :: FetchOutcome and now :: int
  defines "a \<equiv> fetchAttendanceData outcome now st"
      and "b \<equiv> fetchAttendanceData_p1 outcome now st"
  shows "(outcome = ConfigMissing \<or> (\<exists>err. outcome = Rejected err) \<or>
            (\<exists>data err. outcome = Response data (Some err)) \<longrightarrow>
            error a \<noteq> None \<and> error b \<noteq> None \<and> rawData a = rawData st \<and> rawData b = rawData st) \<and>
         (\<forall>d. outcome = Response (Some d) None \<longrightarrow>
            rawData a = d \<and> rawData b = d \<and> error a = None \<and> error b = None) \<and>
         (rawData a \<noteq> rawData st \<or> rawData b \<noteq> rawData st \<longrightarrow>
            (\<exists>d. outcome = Response (Some d) None))"
proof -
  have fail: "succeeded outcome = None \<Longrightarrow> rawData a = rawData st \<and> rawData b = rawData st"
    unfolding a_def b_def fetchAttendanceData_def fetchAttendanceData_p1_def
    by (simp add: fetchWith_failure)
  have succ: "succeeded outcome = None \<or> (\<exists>d. outcome = Response (Some d) None)"
    by (cases outcome rule: succeeded.cases) auto
  have p1: "outcome = ConfigMissing \<or> (\<exists>err. outcome = Rejected err) \<or>
            (\<exists>data err. outcome = Response data (Some err)) \<Longrightarrow>
            error a \<noteq> None \<and> error b \<noteq> None \<and> rawData a = rawData st \<and> rawData b = rawData st"
    unfolding a_def b_def fetchAttendanceData_def fetchAttendanceData_p1_def
    by (auto simp: fetchWith_error fetchWith_failure)
  have p2: "outcome = Response (Some d) None \<Longrightarrow>
            rawData a = d \<and> rawData b = d \<and> error a = None \<and> error b = None" for d
    unfolding a_def b_def fetchAttendanceData_def fetchAttendanceData_p1_def
    by (simp add: fetchWith_success)
  have p3: "rawData a \<noteq> rawData st \<or> rawData b \<noteq> rawData st \<Longrightarrow>
            \<exists>d. outcome = Response (Some d) None"
    using fail succ by metis
  show ?thesis
  proof (intro conjI allI impI)
    assume "outcome = ConfigMissing \<or> (\<exists>err. outcome = Rejected err) \<or>
            (\<exists>data err. outcome = Response data (Some err))"
    from p1 [OF this]
    show "error a \<noteq> None" "error b \<noteq> None" "rawData a = rawData st" "rawData b = rawData st"
      by simp_all
  next
    fix d assume "outcome = Response (Some d) None"
    from p2 [OF this]
    show "rawData a = d" "rawData b = d" "error a = None" "error b = None"
      by simp_all
  next
    assume "rawData a \<noteq> rawData st \<or> rawData b \<noteq> rawData st"
    then show "\<exists>d. outcome = Response (Some d) None" by (rule p3)
  qed
qed

theorem refresh_replaces_data_only_on_success_witness:
  "error (fetchAttendanceData (Rejected \<lparr>message = Some ''Failed to fetch''\<rparr>) 1768867230000 loaded)
     = Some ''Failed to fetch'' \<and>
   error (fetchAttendanceData_p1 (Response None (Some \<lparr>message = None\<rparr>)) 1768867230000 loaded)
     = Some ''Gagal mendapatkan data dari pangkalan data.'' \<and>
   rawData (fetchAttendanceData ConfigMissing 1768867230000 loaded) = rawData loaded \<and>
   rawData (fetchAttendanceData (Response (Some []) None) 1768867230000 loaded) = [] \<and>
   rawData (fetchAttendanceData (Response (Some []) None) 1768867230000 loaded) \<noteq> rawData loaded"
  using refresh_replaces_data_only_on_success [of "Rejected \<lparr>message = Some ''Failed to fetch''\<rparr>" 1768867230000 loaded]
        refresh_replaces_data_only_on_success [of "Response None (Some \<lparr>message = None\<rparr>)" 1768867230000 loaded]
        refresh_replaces_data_only_on_success [of ConfigMissing 1768867230000 loaded]
        refresh_replaces_data_only_on_success [of "Response (Some []) None" 1768867230000 loaded]
  by (simp add: fetchAttendanceData_def fetchAttendanceData_p1_def fetchWith_def errMessage_def
                loaded_def Let_def)

section \<open>Records with a missing unit or date\<close>



section \<open>The distribution is in descending order of percentage\<close>

text \<open>
  Claim C10. In both variants \<open>stateDistribution\<close> is sorted in non-increasing order
  of percentage. Hence, when the lock step of \<^verbatim>\<open>src/App.tsx\<close> records a winner for a
  session key that had none, the recorded unit is the head of the distribution and
  its percentage is maximal among all entries.
\<close>

theorem distribution_descending_champion_maximal:
  fixes g :: "string \<Rightarrow> int option"
  shows "sorted_wrt (\<lambda>a b. percentage b \<le> percentage a) (stateDistribution (stats g raw ms d s u)) \<and>
         sorted_wrt (\<lambda>a b. percentage b \<le> percentage a) (stateDistribution (stats_p1 g raw d s u)) \<and>
         (\<forall>w. sessionWinners st sel = None \<and>
              sessionWinners (lockWinner sel (stateDistribution (stats g raw ms d s u)) now st) sel = Some w \<longrightarrow>
              w_state w = state (hd (stateDistribution (stats g raw ms d s u))) \<and>
              w_percentage w = percentage (hd (stateDistribution (stats g raw ms d s u))) \<and>
              (\<forall>e \<in> set (stateDistribution (stats g raw ms d s u)). percentage e \<le> w_percentage w))"
proof -
  let ?sd = "stateDistribution (stats g raw ms d s u)"
  have s1: "sorted_wrt (\<lambda>a b. percentage b \<le> percentage a) ?sd"
    by (simp add: stats_fields sorted_mkStateDistribution)
  have s2: "sorted_wrt (\<lambda>a b. percentage b \<le> percentage a) (stateDistribution (stats_p1 g raw d s u))"
    by (simp add: stats_p1_fields sorted_mkStateDistribution)
  have champ: "w_state w = state (hd ?sd) \<and> w_percentage w = percentage (hd ?sd) \<and>
               (\<forall>e \<in> set ?sd. percentage e \<le> w_percentage w)"
    if none: "sessionWinners st sel = None"
    and some: "sessionWinners (lockWinner sel ?sd now st) sel = Some w" for w
  proof (cases "find (\<lambda>s. 100 \<le> percentage s) ?sd")
    case None
    with none some show ?thesis by (simp add: lockWinner_def split: if_splits)
  next
    case (Some c)
    with none some have w: "w = \<lparr>w_state = state c, w_percentage = percentage c, w_timestamp = now\<rparr>"
      by (simp add: lockWinner_def Let_def split: if_splits)
    from sorted_wrt_find_ge [OF s1 Some]
    have "c = hd ?sd" and "\<forall>e \<in> set ?sd. percentage e \<le> percentage c" by blast+
    with w show ?thesis by simp
  qed
  from s1 s2 champ show ?thesis by blast
qed

theorem distribution_descending_champion_maximal_witness:
  "sessionWinners lockedSesi1 ''all'' = None \<and>
   sessionWinners
     (lockWinner ''all'' (stateDistribution (stats sampleTime perlisRaw [] ''all'' ''all'' ''all'')) ''T1''
        lockedSesi1) ''all'' =
     Some \<lparr>w_state = ''FAMA PERLIS'', w_percentage = 100, w_timestamp = ''T1''\<rparr> \<and>
   map percentage (stateDistribution (stats sampleTime perlisRaw [] ''all'' ''all'' ''all'')) =
     100 # replicate 16 0"
proof -
  have hd: "find (\<lambda>s. 100 \<le> percentage s)
              (stateDistribution (stats sampleTime perlisRaw [] ''all'' ''all'' ''all'')) =
            Some (stat ''FAMA PERLIS'' 6 6 100)"
    by (simp add: stats_fields filtered_all perlisRaw_def gapRaw_def eval_defs PRESET_TARGETS_def)
  have w: "sessionWinners
             (lockWinner ''all'' (stateDistribution (stats sampleTime perlisRaw [] ''all'' ''all'' ''all'')) ''T1''
                lockedSesi1) ''all'' =
           Some \<lparr>w_state = ''FAMA PERLIS'', w_percentage = 100, w_timestamp = ''T1''\<rparr>"
    by (simp add: lockWinner_def truthyAt_def Object_prototype_names_def hd lockedSesi1_def
                  stat_def Let_def)
  have pcts: "map percentage (stateDistribution (stats sampleTime perlisRaw [] ''all'' ''all'' ''all'')) =
                100 # replicate 16 0"
    by (simp add: stats_fields filtered_all perlisRaw_def gapRaw_def eval_defs PRESET_TARGETS_def
                  numeral_eq_Suc)
  show ?thesis
    using distribution_descending_champion_maximal
            [of sampleTime perlisRaw "[]" "''all''" "''all''" "''all''" lockedSesi1 "''all''" "''T1''"]
          w pcts
    by (simp add: lockedSesi1_def)
qed

end
